theory Spec2Isabelle
  imports Main "HOL-Library.Word"
begin

unbundle bit_operations_syntax

section \<open>Discovery of a pvAccess server: beacons and search responses\<close>

text \<open>
  The development embeds package \<open>search\<close> of go-pvaccess. The repository holds two
  versions of the package: \<open>internal/search/search.go\<close>, which sends its beacons through
  the broadcast connection of a \<open>udpconn\<close> listener and answers search requests, and an
  older file (\<open>part_000\<close>), which opens one socket per local address itself and only
  sends beacons. Definitions taken from the older file carry the suffix \<open>_part000\<close>.
\<close>

subsection \<open>Go values\<close>

type_synonym byte = "8 word"

text \<open>
  \<open>net.IP\<close> is a byte slice, of 4 or 16 bytes when it holds an address. A nil slice
  and an empty one have the same bytes (none) and differ only under \<open>== nil\<close>: the one
  slice that the code compares with nil, the IP of the configured address, is an option,
  with \<open>None\<close> for nil, and \<open>ipBytes\<close> gives its bytes.
\<close>

type_synonym IP = "byte list"

definition ipBytes :: "IP option \<Rightarrow> IP" where
  "ipBytes ip = (case ip of None \<Rightarrow> [] | Some b \<Rightarrow> b)"

datatype error = EOF | Canceled | DeadlineExceeded | Failure string

record UDPAddr =
  udp_IP :: IP
  udp_Port :: int
  udp_Zone :: string

record TCPAddr =
  tcp_IP :: "IP option"
  tcp_Port :: int
  tcp_Zone :: string

text \<open>
  The builtin \<open>copy(dst, src)\<close> overwrites the first \<open>min (len dst) (len src)\<close> elements
  of \<open>dst\<close> and leaves the rest of it alone.
\<close>

definition copy :: "'a list \<Rightarrow> 'a list \<Rightarrow> 'a list" where
  "copy dst src = take (length dst) src @ drop (length src) dst"

text \<open>
  \<open>net.IPv4(a, b, c, d)\<close> is the 16-byte form of an IPv4 address: the prefix
  \<open>v4InV6Prefix\<close> (ten zero bytes, then \<open>0xff 0xff\<close>) followed by the four bytes.
  \<open>IP.To16\<close> converts a 4-byte address that way, returns a 16-byte address as it is
  and nil for every other length. \<open>IP.To4\<close> returns the 4-byte form of an IPv4 address
  and nil otherwise.
\<close>

definition v4InV6Prefix :: "byte list" where
  "v4InV6Prefix = replicate 10 0 @ [0xff, 0xff]"

definition IPv4len :: nat where "IPv4len = 4"
definition IPv6len :: nat where "IPv6len = 16"

definition To16 :: "IP \<Rightarrow> IP" where
  "To16 ip =
     (if length ip = IPv4len then v4InV6Prefix @ ip
      else if length ip = IPv6len then ip
      else [])"

definition To4 :: "IP \<Rightarrow> IP" where
  "To4 ip =
     (if length ip = IPv4len then ip
      else if length ip = IPv6len \<and> take 12 ip = v4InV6Prefix then drop 12 ip
      else [])"

definition IPv4zero :: IP where "IPv4zero = v4InV6Prefix @ [0, 0, 0, 0]"
definition IPv6unspecified :: IP where "IPv6unspecified = replicate 16 0"
definition IPv4bcast :: IP where "IPv4bcast = v4InV6Prefix @ [255, 255, 255, 255]"
definition IPv6linklocalallnodes :: IP where
  "IPv6linklocalallnodes = [0xff, 0x02] @ replicate 13 0 @ [0x01]"

definition Equal :: "IP \<Rightarrow> IP \<Rightarrow> bool" where
  "Equal ip x =
     (if length ip = length x then ip = x
      else if length ip = IPv4len \<and> length x = IPv6len
        then take 12 x = v4InV6Prefix \<and> ip = drop 12 x
      else if length ip = IPv6len \<and> length x = IPv4len
        then take 12 ip = v4InV6Prefix \<and> drop 12 ip = x
      else False)"

definition IsUnspecified :: "IP \<Rightarrow> bool" where
  "IsUnspecified ip \<longleftrightarrow> Equal ip IPv4zero \<or> Equal ip IPv6unspecified"

subsection \<open>Protocol messages\<close>

text \<open>
  Package \<open>proto\<close> is not part of the sources at hand, so the command codes and flag
  bits it declares are parameters of the model.
\<close>

record proto =
  APP_BEACON :: byte
  APP_SEARCH_REQUEST :: byte
  APP_SEARCH_RESPONSE :: byte
  FLAG_FROM_SERVER :: byte
  SEARCH_REPLY_REQUIRED :: byte

record SearchRequestChannel =
  SearchInstanceID :: "32 word"
  ChannelName :: string

record SearchRequest =
  req_SearchSequenceID :: "32 word"
  req_Flags :: byte
  req_Channels :: "SearchRequestChannel list"

text \<open>
  A \<open>SearchResponse\<close> starts as Go's zero value: zero bytes, \<open>Found = false\<close> and a nil
  list of instance IDs.
\<close>

record SearchResponse =
  resp_GUID :: "byte list"
  resp_SearchSequenceID :: "32 word"
  resp_ServerAddress :: "byte list"
  resp_ServerPort :: "16 word"
  resp_Protocol :: string
  resp_Found :: bool
  resp_SearchInstanceIDs :: "32 word list"

subsection \<open>Connections\<close>

text \<open>
  \<open>connection.New conn flags\<close> wraps a transport; the handler sets its protocol version
  to 2. What \<open>SendApp\<close> is called with is recorded as a \<open>sent\<close> entry: the connection's
  flags and version, the command code and the payload.
\<close>

record 'p sent =
  sent_flags :: byte
  sent_Version :: byte
  sent_command :: byte
  sent_payload :: 'p

definition SendApp :: "byte \<Rightarrow> byte \<Rightarrow> byte \<Rightarrow> 'p \<Rightarrow> 'p sent" where
  "SendApp flags version cmd payload =
     \<lparr>sent_flags = flags, sent_Version = version, sent_command = cmd, sent_payload = payload\<rparr>"

text \<open>
  An inbound message has a header with its command code and a body; \<open>msg.Decode\<close> is
  the framing collaborator's decoder, a parameter \<open>decode\<close> of the handler.
\<close>

record 'b Message =
  MessageCommand :: byte
  msg_Data :: 'b

text \<open>
  A pseudo-connection of the listener: its local and remote address and what
  \<open>c.Next\<close> yields on it, an error or the one message of the datagram.
\<close>

record 'b Conn =
  conn_LocalAddr :: UDPAddr
  conn_Addr :: UDPAddr
  conn_Next :: "error + 'b Message"

subsection \<open>The search responder\<close>

record searchServer =
  srv_GUID :: "byte list"
  srv_ServerPort :: int

text \<open>
  The handler's outcome: the error it returns, the messages it handed to \<open>SendApp\<close>,
  the errors its deferred function logged as warnings, and whether the connection
  was closed.
\<close>

record handled =
  h_err :: error
  h_sent :: "SearchResponse sent list"
  h_warned :: "error list"
  h_closed :: bool

text \<open>
  The deferred functions of \<open>handleConnection\<close>: the connection is closed, and an error
  other than \<open>io.EOF\<close> is logged as a warning.
\<close>

definition finish :: "error \<Rightarrow> SearchResponse sent list \<Rightarrow> handled" where
  "finish err out =
     \<lparr>h_err = err, h_sent = out,
      h_warned = (if err \<noteq> EOF then [err] else []),
      h_closed = True\<rparr>"

text \<open>
  The response to a decoded request (lines 140 to 158 of \<open>search.go\<close>). The source
  declares the list \<open>found\<close> of local channel IDs and leaves it empty (\<open>TODO: Find
  channels\<close>); here \<open>found\<close> is an argument, so that both outcomes of the tests on
  \<open>len(found)\<close> are part of the model, and \<open>handleConnection\<close> below passes the
  empty list, as the source does. Nothing in the source writes \<open>Found\<close> or
  \<open>SearchInstanceIDs\<close> when \<open>found\<close> is not empty.
\<close>

definition searchResponse ::
  "searchServer \<Rightarrow> UDPAddr \<Rightarrow> 32 word list \<Rightarrow> SearchRequest \<Rightarrow> SearchResponse" where
  "searchResponse s laddr found req =
     (let resp = \<lparr>resp_GUID = srv_GUID s,
                  resp_SearchSequenceID = req_SearchSequenceID req,
                  resp_ServerAddress = replicate 16 0,
                  resp_ServerPort = word_of_int (srv_ServerPort s),
                  resp_Protocol = ''tcp'',
                  resp_Found = False,
                  resp_SearchInstanceIDs = []\<rparr>;
          resp = resp\<lparr>resp_ServerAddress := copy (resp_ServerAddress resp) (To16 (udp_IP laddr))\<rparr>
      in if length found = 0
         then resp\<lparr>resp_Found := False,
                   resp_SearchInstanceIDs :=
                     resp_SearchInstanceIDs resp @ map SearchInstanceID (req_Channels req)\<rparr>
         else resp)"

definition replyRequired :: "proto \<Rightarrow> SearchRequest \<Rightarrow> bool" where
  "replyRequired P req \<longleftrightarrow>
     req_Flags req AND SEARCH_REPLY_REQUIRED P = SEARCH_REPLY_REQUIRED P"

definition processSearch ::
  "proto \<Rightarrow> searchServer \<Rightarrow> UDPAddr \<Rightarrow> 32 word list \<Rightarrow> SearchRequest \<Rightarrow> SearchResponse sent list" where
  "processSearch P s laddr found req =
     (if length found > 0 \<or> replyRequired P req
      then [SendApp (FLAG_FROM_SERVER P) 2 (APP_SEARCH_RESPONSE P) (searchResponse s laddr found req)]
      else [])"

definition handleConnection ::
  "proto \<Rightarrow> ('b \<Rightarrow> error + SearchRequest) \<Rightarrow> searchServer \<Rightarrow> UDPAddr \<Rightarrow> 'b Conn \<Rightarrow> handled" where
  "handleConnection P decode s laddr conn =
     (case conn_Next conn of
        Inl err \<Rightarrow> finish err []
      | Inr msg \<Rightarrow>
          if MessageCommand msg = APP_SEARCH_REQUEST P
          then (case decode (msg_Data msg) of
                  Inl err \<Rightarrow> finish err []
                | Inr req \<Rightarrow> finish EOF (processSearch P s laddr [] req))
          else finish EOF [])"

text \<open>
  The accept loop of \<open>searchServer.serve\<close>. The listener is what \<open>ln.Accept\<close> yields over
  its life: the pseudo-connections it accepts and then, if it ever fails, the error.
  Every accepted connection is handled in a goroutine of its own, with the
  \<^emph>\<open>listener's\<close> local address. The loop returns only with the error of \<open>Accept\<close>.
\<close>

record 'b Listener =
  ln_LocalAddr :: UDPAddr
  ln_accepted :: "'b Conn list"
  ln_acceptErr :: "error option"

definition serve ::
  "proto \<Rightarrow> ('b \<Rightarrow> error + SearchRequest) \<Rightarrow> searchServer \<Rightarrow> 'b Listener
     \<Rightarrow> handled list \<times> error option" where
  "serve P decode s ln =
     (map (handleConnection P decode s (ln_LocalAddr ln)) (ln_accepted ln), ln_acceptErr ln)"

subsection \<open>Beacons\<close>

text \<open>
  Of a \<open>proto.BeaconMessage\<close> the package touches the GUID, the sequence number, the
  server address (16 bytes), the port and the protocol name. The type of
  \<open>BeaconSequenceID\<close> is declared in package \<open>proto\<close>; it is an unsigned machine integer
  whose width \<open>'w\<close> is left open here, so \<open>++\<close> on it is \<open>+ 1\<close> on \<open>'w word\<close>.
\<close>

record 's BeaconMessage =
  beacon_GUID :: "byte list"
  beacon_BeaconSequenceID :: 's
  beacon_ServerAddress :: "byte list"
  beacon_ServerPort :: "16 word"
  beacon_Protocol :: string

definition zeroBeacon :: "('w::len) word BeaconMessage" where
  "zeroBeacon =
     \<lparr>beacon_GUID = replicate 12 0, beacon_BeaconSequenceID = 0,
      beacon_ServerAddress = replicate 16 0, beacon_ServerPort = 0, beacon_Protocol = []\<rparr>"

text \<open>A \<open>time.Duration\<close> counts nanoseconds.\<close>

definition time_Second :: int where "time_Second = 1000000000"

definition startupInterval :: int where "startupInterval = time_Second"
definition startupCount :: "64 word" where "startupCount = 15"
definition beaconInterval :: int where "beaconInterval = 5 * time_Second"
definition udpPort :: int where "udpPort = 5076"

subsection \<open>The beacon loop\<close>

text \<open>
  Both files end \<open>Serve\<close> with the same loop: a \<open>select\<close> between the context's \<open>Done\<close>
  channel and the ticker's channel. The loop is run on the list of channels that
  \<open>select\<close> finds ready, in order; when the list is used up the loop is still blocked
  in \<open>select\<close> and has not returned (\<open>None\<close>). The state of the loop is the beacon, the
  counter \<open>i\<close> (a Go \<open>int\<close>, here of 64 bits), the period of the ticker in use, whether
  the deferred \<open>ticker.Stop\<close> has run, and what has been sent so far. The files differ in
  the send step only, the argument \<open>sendAll\<close>.
\<close>

datatype event = Done | Tick

record ('s, 'o) sched =
  sch_beacon :: "'s BeaconMessage"
  sch_i :: "64 word"
  sch_ticker :: int
  sch_stopped :: bool
  sch_sent :: "'o list"

definition tick ::
  "(('w::len) word BeaconMessage \<Rightarrow> 'o list) \<Rightarrow> ('w word, 'o) sched \<Rightarrow> ('w word, 'o) sched" where
  "tick sendAll st =
     (let beacon = (sch_beacon st)
            \<lparr>beacon_BeaconSequenceID := beacon_BeaconSequenceID (sch_beacon st) + 1\<rparr>;
          out = sch_sent st @ sendAll beacon;
          i = sch_i st + 1
      in st\<lparr>sch_beacon := beacon, sch_sent := out, sch_i := i,
            sch_ticker := (if i = startupCount then beaconInterval else sch_ticker st)\<rparr>)"

fun beaconLoop ::
  "(('w::len) word BeaconMessage \<Rightarrow> 'o list) \<Rightarrow> error \<Rightarrow> ('w word, 'o) sched \<Rightarrow> event list
     \<Rightarrow> ('w word, 'o) sched \<times> error option" where
  "beaconLoop sendAll cerr st [] = (st, None)"
| "beaconLoop sendAll cerr st (Done # es) = (st\<lparr>sch_stopped := True\<rparr>, Some cerr)"
| "beaconLoop sendAll cerr st (Tick # es) = beaconLoop sendAll cerr (tick sendAll st) es"

definition startSched :: "'s BeaconMessage \<Rightarrow> ('s, 'o) sched" where
  "startSched beacon =
     \<lparr>sch_beacon = beacon, sch_i = 0, sch_ticker = startupInterval, sch_stopped = False,
      sch_sent = []\<rparr>"

subsection \<open>The environment of \<open>Serve\<close>\<close>

text \<open>
  What the calls out of the package answer: \<open>rand.Read\<close> (an error, or the random bytes
  it wrote), \<open>udpconn.Listen\<close>, \<open>net.Interfaces\<close> with each interface's \<open>Addrs\<close>,
  \<open>net.DialUDP\<close> (an error, or none), the ready channels of the loop's \<open>select\<close> and
  \<open>ctx.Err\<close>. Every call made is recorded, in order.
\<close>

datatype Addr = IPNet IP "byte list" | OtherAddr string

record Interface =
  if_Name :: string
  if_Addrs :: "error + Addr list"

record 'b Env =
  env_rand_Read :: "error + byte list"
  env_Listen :: "error + 'b Listener"
  env_Interfaces :: "error + Interface list"
  env_DialUDP :: "UDPAddr \<Rightarrow> UDPAddr \<Rightarrow> error option"
  env_select :: "event list"
  env_ctx_Err :: error

datatype call =
  CallRandRead | CallListen | CallInterfaces | CallAddrs string | CallDialUDP UDPAddr UDPAddr

text \<open>
  What \<open>Serve\<close> has done: the error it returned (\<open>None\<close> while it is still in its loop),
  the calls it made, the state of its beacon loop if it got that far, and the search
  server it started.
\<close>

record ('s, 'o, 'x) served =
  sv_err :: "error option"
  sv_calls :: "call list"
  sv_sched :: "('s, 'o) sched option"
  sv_search :: 'x

definition failed :: "call list \<Rightarrow> error \<Rightarrow> 'x \<Rightarrow> ('s, 'o, 'x) served" where
  "failed calls err x = \<lparr>sv_err = Some err, sv_calls = calls, sv_sched = None, sv_search = x\<rparr>"

subsection \<open>\<open>Serve\<close> of \<open>search.go\<close>\<close>

text \<open>
  The beacon is built from the random GUID, the configured IP if there is one, the port
  and the protocol name; the listener is opened; the search server is started on it in
  a goroutine of its own; then beacons go out on the listener's broadcast connection,
  one \<open>SendApp\<close> per tick. Log lines are left out.
\<close>

definition Serve ::
  "proto \<Rightarrow> ('b \<Rightarrow> error + SearchRequest) \<Rightarrow> 'b Env \<Rightarrow> TCPAddr
     \<Rightarrow> (('w::len) word, 'w word BeaconMessage sent, (handled list \<times> error option) option) served" where
  "Serve P decode env serverAddr =
     (case env_rand_Read env of
        Inl err \<Rightarrow> failed [CallRandRead] err None
      | Inr guid \<Rightarrow>
          let beacon = zeroBeacon\<lparr>beacon_GUID := copy (replicate 12 0) guid\<rparr>;
              beacon = (if length (ipBytes (tcp_IP serverAddr)) > 0
                        then beacon\<lparr>beacon_ServerAddress :=
                               copy (beacon_ServerAddress beacon)
                                 (To16 (ipBytes (tcp_IP serverAddr)))\<rparr>
                        else beacon);
              beacon = beacon\<lparr>beacon_ServerPort := word_of_int (tcp_Port serverAddr),
                              beacon_Protocol := ''tcp''\<rparr>
          in (case env_Listen env of
                Inl err \<Rightarrow> failed [CallRandRead, CallListen] err None
              | Inr ln \<Rightarrow>
                  let searching = serve P decode
                        \<lparr>srv_GUID = beacon_GUID beacon, srv_ServerPort = tcp_Port serverAddr\<rparr> ln;
                      (st, r) = beaconLoop (\<lambda>b. [SendApp (FLAG_FROM_SERVER P) 2 (APP_BEACON P) b])
                                  (env_ctx_Err env) (startSched beacon) (env_select env)
                  in \<lparr>sv_err = r, sv_calls = [CallRandRead, CallListen], sv_sched = Some st,
                      sv_search = Some searching\<rparr>))"

subsection \<open>\<open>Serve\<close> of the older file\<close>

record IPAddr =
  ipa_IP :: IP
  ipa_Zone :: string

text \<open>The addresses of one interface that are \<open>*net.IPNet\<close> values, with the interface's name as zone.\<close>

fun addrIPs :: "string \<Rightarrow> Addr list \<Rightarrow> IPAddr list" where
  "addrIPs name [] = []"
| "addrIPs name (IPNet ip netmask # addrs) = \<lparr>ipa_IP = ip, ipa_Zone = name\<rparr> # addrIPs name addrs"
| "addrIPs name (OtherAddr a # addrs) = addrIPs name addrs"

text \<open>The loop over the interfaces stops at the first \<open>Addrs\<close> that fails.\<close>

fun interfaceIPs :: "Interface list \<Rightarrow> call list \<times> (error + IPAddr list)" where
  "interfaceIPs [] = ([], Inr [])"
| "interfaceIPs (i # ifs) =
     (case if_Addrs i of
        Inl err \<Rightarrow> ([CallAddrs (if_Name i)], Inl err)
      | Inr addrs \<Rightarrow>
          (case interfaceIPs ifs of
             (cs, Inl err) \<Rightarrow> (CallAddrs (if_Name i) # cs, Inl err)
           | (cs, Inr ips) \<Rightarrow> (CallAddrs (if_Name i) # cs, Inr (addrIPs (if_Name i) addrs @ ips))))"

text \<open>
  A sender is a connection dialled from a local address to the broadcast or multicast
  address (wrapped by \<open>connection.New\<close> with \<open>FLAG_FROM_SERVER\<close>), kept with the local IP.
  The local address is dialled with port 0.
\<close>

record sender =
  snd_local :: UDPAddr
  snd_remote :: UDPAddr
  snd_ip :: IP

definition remoteAddr :: "IPAddr \<Rightarrow> UDPAddr" where
  "remoteAddr ip =
     (let raddr = \<lparr>udp_IP = IPv6linklocalallnodes, udp_Port = udpPort, udp_Zone = []\<rparr>
      in if length (To4 (ipa_IP ip)) = IPv4len then raddr\<lparr>udp_IP := IPv4bcast\<rparr> else raddr)"

definition localAddr :: "IPAddr \<Rightarrow> UDPAddr" where
  "localAddr ip = \<lparr>udp_IP = ipa_IP ip, udp_Port = 0, udp_Zone = ipa_Zone ip\<rparr>"

text \<open>The loop that dials one socket per address stops at the first \<open>DialUDP\<close> that fails.\<close>

fun dialAll ::
  "(UDPAddr \<Rightarrow> UDPAddr \<Rightarrow> error option) \<Rightarrow> IPAddr list \<Rightarrow> call list \<times> (error + sender list)" where
  "dialAll dial [] = ([], Inr [])"
| "dialAll dial (ip # ips) =
     (case dial (localAddr ip) (remoteAddr ip) of
        Some err \<Rightarrow> ([CallDialUDP (localAddr ip) (remoteAddr ip)], Inl err)
      | None \<Rightarrow>
          (case dialAll dial ips of
             (cs, Inl err) \<Rightarrow> (CallDialUDP (localAddr ip) (remoteAddr ip) # cs, Inl err)
           | (cs, Inr senders) \<Rightarrow>
               (CallDialUDP (localAddr ip) (remoteAddr ip) # cs,
                Inr (\<lparr>snd_local = localAddr ip, snd_remote = remoteAddr ip, snd_ip = ipa_IP ip\<rparr>
                     # senders))))"

text \<open>
  \<open>sender.send\<close> gets the beacon by value, writes the sender's IP over its server
  address and sends it on the sender's connection.
\<close>

record 's beaconOut =
  out_sender :: sender
  out_command :: byte
  out_packet :: "'s BeaconMessage"

definition send :: "proto \<Rightarrow> sender \<Rightarrow> 's BeaconMessage \<Rightarrow> 's beaconOut" where
  "send P s pkt =
     \<lparr>out_sender = s, out_command = APP_BEACON P,
      out_packet = pkt\<lparr>beacon_ServerAddress := copy (beacon_ServerAddress pkt) (snd_ip s)\<rparr>\<rparr>"

text \<open>
  The addresses to send from: the configured one, or every interface address when the
  configured IP is nil or unspecified. An empty IP that is not nil is neither, and is
  used as it is.
\<close>

definition beaconIPs :: "'b Env \<Rightarrow> TCPAddr \<Rightarrow> call list \<times> (error + IPAddr list)" where
  "beaconIPs env serverAddr =
     (if tcp_IP serverAddr = None \<or> IsUnspecified (ipBytes (tcp_IP serverAddr))
      then (case env_Interfaces env of
              Inl err \<Rightarrow> ([CallInterfaces], Inl err)
            | Inr ifs \<Rightarrow> (case interfaceIPs ifs of (cs, r) \<Rightarrow> (CallInterfaces # cs, r)))
      else ([], Inr [\<lparr>ipa_IP = ipBytes (tcp_IP serverAddr), ipa_Zone = tcp_Zone serverAddr\<rparr>]))"

definition Serve_part000 ::
  "proto \<Rightarrow> 'b Env \<Rightarrow> TCPAddr \<Rightarrow> (('w::len) word, 'w word beaconOut, unit) served" where
  "Serve_part000 P env serverAddr =
     (case env_rand_Read env of
        Inl err \<Rightarrow> failed [CallRandRead] err ()
      | Inr guid \<Rightarrow>
          let beacon = zeroBeacon\<lparr>beacon_GUID := copy (replicate 12 0) guid\<rparr>
          in (case beaconIPs env serverAddr of
                (cs1, Inl err) \<Rightarrow> failed (CallRandRead # cs1) err ()
              | (cs1, Inr ips) \<Rightarrow>
                  let beacon = beacon\<lparr>beacon_ServerPort := word_of_int (tcp_Port serverAddr),
                                      beacon_Protocol := ''tcp''\<rparr>
                  in (case dialAll (env_DialUDP env) ips of
                        (cs2, Inl err) \<Rightarrow> failed (CallRandRead # cs1 @ cs2) err ()
                      | (cs2, Inr senders) \<Rightarrow>
                          let (st, r) = beaconLoop (\<lambda>b. map (\<lambda>s. send P s b) senders)
                                          (env_ctx_Err env) (startSched beacon) (env_select env)
                          in \<lparr>sv_err = r, sv_calls = CallRandRead # cs1 @ cs2,
                              sv_sched = Some st, sv_search = ()\<rparr>)))"

subsection \<open>Notions used in the statements\<close>

text \<open>
  The beacon \<open>b\<close> after \<open>k\<close> increments of its sequence number, the number of ticks that
  the loop handles before \<open>Done\<close> is selected (or before the list of ready channels
  ends), and the beacon that \<open>Serve\<close> has built from the random bytes \<open>g\<close>, an address
  field and the port when it enters its loop.
\<close>

definition seqBeacon :: "('w::len) word BeaconMessage \<Rightarrow> nat \<Rightarrow> 'w word BeaconMessage" where
  "seqBeacon b k = b\<lparr>beacon_BeaconSequenceID := beacon_BeaconSequenceID b + of_nat k\<rparr>"

definition ticksBefore :: "event list \<Rightarrow> nat" where
  "ticksBefore es = length (takeWhile (\<lambda>e. e = Tick) es)"

definition template :: "byte list \<Rightarrow> byte list \<Rightarrow> int \<Rightarrow> ('w::len) word BeaconMessage" where
  "template g addr port =
     \<lparr>beacon_GUID = copy (replicate 12 0) g, beacon_BeaconSequenceID = 0,
      beacon_ServerAddress = addr, beacon_ServerPort = word_of_int port,
      beacon_Protocol = ''tcp''\<rparr>"

subsection \<open>Concrete inputs\<close>

text \<open>
  The values that the pvAccess protocol gives the constants of package \<open>proto\<close>, and a
  request with sequence number 42 for the channels A (instance 1) and B (instance 2),
  received on 192.0.2.5. They instantiate the theorems below.
\<close>

definition pvAccess :: proto where
  "pvAccess = \<lparr>APP_BEACON = 0, APP_SEARCH_REQUEST = 3, APP_SEARCH_RESPONSE = 4,
          FLAG_FROM_SERVER = 0x40, SEARCH_REPLY_REQUIRED = 1\<rparr>"

definition chanA :: SearchRequestChannel where
  "chanA = \<lparr>SearchInstanceID = 1, ChannelName = ''A''\<rparr>"
definition chanB :: SearchRequestChannel where
  "chanB = \<lparr>SearchInstanceID = 2, ChannelName = ''B''\<rparr>"
definition request42 :: "byte \<Rightarrow> SearchRequestChannel list \<Rightarrow> SearchRequest" where
  "request42 flags chans = \<lparr>req_SearchSequenceID = 42, req_Flags = flags, req_Channels = chans\<rparr>"
definition server1 :: searchServer where
  "server1 = \<lparr>srv_GUID = replicate 12 7, srv_ServerPort = 5075\<rparr>"
definition addr1 :: UDPAddr where
  "addr1 = \<lparr>udp_IP = [192, 0, 2, 5], udp_Port = 5076, udp_Zone = []\<rparr>"
definition peer1 :: UDPAddr where
  "peer1 = \<lparr>udp_IP = [192, 0, 2, 9], udp_Port = 40000, udp_Zone = []\<rparr>"
definition datagram :: "byte \<Rightarrow> SearchRequest \<Rightarrow> SearchRequest Conn" where
  "datagram cmd req =
     \<lparr>conn_LocalAddr = addr1, conn_Addr = peer1,
      conn_Next = Inr \<lparr>MessageCommand = cmd, msg_Data = req\<rparr>\<rparr>"

text \<open>
  A machine with one interface, \<open>eth0\<close> with the address 192.0.2.5 (in the 16-byte form
  that \<open>net.IPv4\<close> builds), where every call succeeds; a listener on 192.0.2.5 that has
  accepted one datagram; the wildcard address (a nil IP) and a configured one.
\<close>

definition eth0 :: Interface where
  "eth0 = \<lparr>if_Name = ''eth0'',
            if_Addrs = Inr [IPNet (v4InV6Prefix @ [192, 0, 2, 5]) [255, 255, 255, 0]]\<rparr>"

definition listener1 :: "SearchRequest Listener" where
  "listener1 =
     \<lparr>ln_LocalAddr = addr1, ln_accepted = [datagram 3 (request42 0x81 [chanA, chanB])],
      ln_acceptErr = None\<rparr>"

definition env1 :: "event list \<Rightarrow> SearchRequest Env" where
  "env1 es =
     \<lparr>env_rand_Read = Inr (replicate 12 7), env_Listen = Inr listener1,
      env_Interfaces = Inr [eth0], env_DialUDP = (\<lambda>laddr raddr. None),
      env_select = es, env_ctx_Err = Canceled\<rparr>"

definition wildcard :: TCPAddr where
  "wildcard = \<lparr>tcp_IP = None, tcp_Port = 5075, tcp_Zone = []\<rparr>"

definition configured :: TCPAddr where
  "configured = \<lparr>tcp_IP = Some [192, 0, 2, 7], tcp_Port = 5075, tcp_Zone = []\<rparr>"

lemmas example_defs = pvAccess_def chanA_def chanB_def request42_def server1_def addr1_def
  peer1_def datagram_def eth0_def listener1_def env1_def wildcard_def configured_def

section \<open>The search responder\<close>

lemma and_bit_iff: "k < 8 \<Longrightarrow> ((w::8 word) AND 2 ^ k = 2 ^ k) = bit w k"
proof
  assume "w AND 2 ^ k = 2 ^ k"
  then have "bit (w AND 2 ^ k) k = bit (2 ^ k :: 8 word) k" by simp
  then show "bit w k" if "k < 8" using that by (simp add: bit_and_iff bit_exp_iff)
next
  assume "bit w k"
  then show "w AND 2 ^ k = 2 ^ k"
    by (intro bit_eqI) (auto simp: bit_and_iff bit_exp_iff)
qed

lemma replyRequired_bit:
  "SEARCH_REPLY_REQUIRED P = 2 ^ k \<Longrightarrow> k < 8 \<Longrightarrow> replyRequired P req = bit (req_Flags req) k"
  by (simp add: replyRequired_def and_bit_iff)

lemma handleConnection_request:
  "conn_Next conn = Inr msg \<Longrightarrow> MessageCommand msg = APP_SEARCH_REQUEST P \<Longrightarrow>
   decode (msg_Data msg) = Inr req \<Longrightarrow>
   handleConnection P decode s laddr conn = finish EOF (processSearch P s laddr [] req)"
  by (simp add: handleConnection_def)

lemma h_sent_finish: "h_sent (finish e out) = out"
  by (simp add: finish_def)

text \<open>
  C1. A decoded search request is answered if and only if the list of found channels
  is not empty or the reply-required bit of the request's flags is set: then exactly one
  response is handed to \<open>SendApp\<close>, otherwise nothing is sent. The handler itself passes
  the empty list of found channels. \<open>SEARCH_REPLY_REQUIRED\<close> is taken to be a single
  bit, bit \<open>k\<close>.
\<close>

theorem response_sent_iff:
  assumes "SEARCH_REPLY_REQUIRED P = 2 ^ k" and "k < 8"
    and "conn_Next conn = Inr msg" and "MessageCommand msg = APP_SEARCH_REQUEST P"
    and "decode (msg_Data msg) = Inr req"
  shows "h_sent (handleConnection P decode s laddr conn) = processSearch P s laddr [] req
    \<and> length (processSearch P s laddr found req) =
           (if 0 < length found \<or> bit (req_Flags req) k then 1 else 0)
    \<and> length (h_sent (handleConnection P decode s laddr conn)) =
           (if bit (req_Flags req) k then 1 else 0)"
proof -
  have h: "h_sent (handleConnection P decode s laddr conn) = processSearch P s laddr [] req"
    using assms(3-5) by (simp add: handleConnection_request h_sent_finish)
  have p: "length (processSearch P s laddr found req) =
           (if 0 < length found \<or> bit (req_Flags req) k then 1 else 0)" for found
    using replyRequired_bit [OF assms(1,2)] by (simp add: processSearch_def)
  from h p [of found] p [of "[]"] show ?thesis by simp
qed

theorem response_sent_iff_witness:
  "length (h_sent (handleConnection pvAccess Inr server1 addr1
              (datagram 3 (request42 0x80 [chanA, chanB])))) = 0
   \<and> length (h_sent (handleConnection pvAccess Inr server1 addr1
                 (datagram 3 (request42 0x81 [chanA, chanB])))) = 1
   \<and> length (processSearch pvAccess server1 addr1 [1] (request42 0x80 [chanA, chanB])) = 1"
  using response_sent_iff [of pvAccess 0 "datagram 3 (request42 0x80 [chanA, chanB])"
      "\<lparr>MessageCommand = 3, msg_Data = request42 0x80 [chanA, chanB]\<rparr>" Inr
      "request42 0x80 [chanA, chanB]" server1 addr1 "[]"]
    response_sent_iff [of pvAccess 0 "datagram 3 (request42 0x80 [chanA, chanB])"
      "\<lparr>MessageCommand = 3, msg_Data = request42 0x80 [chanA, chanB]\<rparr>" Inr
      "request42 0x80 [chanA, chanB]" server1 addr1 "[1]"]
    response_sent_iff [of pvAccess 0 "datagram 3 (request42 0x81 [chanA, chanB])"
      "\<lparr>MessageCommand = 3, msg_Data = request42 0x81 [chanA, chanB]\<rparr>" Inr
      "request42 0x81 [chanA, chanB]" server1 addr1 "[]"]
  by (simp add: example_defs)

text \<open>
  C2. A request with the reply-required bit set and no channel found is answered
  with exactly one response, which echoes the request's \<open>SearchSequenceID\<close>, has
  \<open>Found = false\<close> and lists the instance IDs of all requested channels (in the order
  of the request, hence equal as a set).
\<close>

theorem reply_required_no_match:
  assumes "SEARCH_REPLY_REQUIRED P = 2 ^ k" and "k < 8"
    and "conn_Next conn = Inr msg" and "MessageCommand msg = APP_SEARCH_REQUEST P"
    and "decode (msg_Data msg) = Inr req"
    and "bit (req_Flags req) k"
  shows "\<exists>m. h_sent (handleConnection P decode s laddr conn) = [m]
           \<and> sent_command m = APP_SEARCH_RESPONSE P
           \<and> resp_SearchSequenceID (sent_payload m) = req_SearchSequenceID req
           \<and> resp_Found (sent_payload m) = False
           \<and> resp_SearchInstanceIDs (sent_payload m) = map SearchInstanceID (req_Channels req)
           \<and> set (resp_SearchInstanceIDs (sent_payload m)) = SearchInstanceID ` set (req_Channels req)"
proof -
  have "replyRequired P req"
    using assms(1,2,6) by (simp add: replyRequired_bit)
  then show ?thesis
    using assms(3-5)
    by (simp add: handleConnection_request h_sent_finish processSearch_def SendApp_def
        searchResponse_def)
qed

theorem reply_required_no_match_witness:
  "\<exists>m. h_sent (handleConnection pvAccess Inr server1 addr1
            (datagram 3 (request42 0x81 [chanA, chanB]))) = [m]
       \<and> sent_command m = 4
       \<and> resp_SearchSequenceID (sent_payload m) = 42
       \<and> resp_Found (sent_payload m) = False
       \<and> resp_SearchInstanceIDs (sent_payload m) = [1, 2]
       \<and> set (resp_SearchInstanceIDs (sent_payload m)) = {1, 2}"
  using reply_required_no_match [of pvAccess 0 "datagram 3 (request42 0x81 [chanA, chanB])"
      "\<lparr>MessageCommand = 3, msg_Data = request42 0x81 [chanA, chanB]\<rparr>" Inr
      "request42 0x81 [chanA, chanB]" server1 addr1]
  by (simp add: example_defs)

text \<open>
  C9. A message whose command is not the search request is dropped: the handler sends
  nothing, returns \<open>io.EOF\<close>, logs no warning and closes the connection, whatever the
  decoder would make of the message.
\<close>

theorem unknown_command_dropped:
  assumes "conn_Next conn = Inr msg" and "MessageCommand msg \<noteq> APP_SEARCH_REQUEST P"
  shows "handleConnection P decode s laddr conn =
           \<lparr>h_err = EOF, h_sent = [], h_warned = [], h_closed = True\<rparr>"
  using assms by (simp add: handleConnection_def finish_def)

theorem unknown_command_dropped_witness:
  "handleConnection pvAccess Inr server1 addr1 (datagram 0 (request42 0x81 [chanA, chanB])) =
     \<lparr>h_err = EOF, h_sent = [], h_warned = [], h_closed = True\<rparr>"
  using unknown_command_dropped [of "datagram 0 (request42 0x81 [chanA, chanB])"
      "\<lparr>MessageCommand = 0, msg_Data = request42 0x81 [chanA, chanB]\<rparr>" pvAccess Inr server1 addr1]
  by (simp add: example_defs)

text \<open>
  C10. A request without channels whose reply-required bit is set is answered with a
  response that has \<open>Found = false\<close> and an empty list of instance IDs.
\<close>

theorem empty_request_reply_required:
  assumes "SEARCH_REPLY_REQUIRED P = 2 ^ k" and "k < 8"
    and "conn_Next conn = Inr msg" and "MessageCommand msg = APP_SEARCH_REQUEST P"
    and "decode (msg_Data msg) = Inr req"
    and "bit (req_Flags req) k" and "req_Channels req = []"
  shows "\<exists>m. h_sent (handleConnection P decode s laddr conn) = [m]
           \<and> resp_Found (sent_payload m) = False
           \<and> resp_SearchInstanceIDs (sent_payload m) = []"
proof -
  have "replyRequired P req"
    using assms(1,2,6) by (simp add: replyRequired_bit)
  then show ?thesis
    using assms(3-5,7)
    by (simp add: handleConnection_request h_sent_finish processSearch_def SendApp_def
        searchResponse_def)
qed

theorem empty_request_reply_required_witness:
  "\<exists>m. h_sent (handleConnection pvAccess Inr server1 addr1 (datagram 3 (request42 1 []))) = [m]
       \<and> resp_Found (sent_payload m) = False
       \<and> resp_SearchInstanceIDs (sent_payload m) = []"
  using empty_request_reply_required [of pvAccess 0 "datagram 3 (request42 1 [])"
      "\<lparr>MessageCommand = 3, msg_Data = request42 1 []\<rparr>" Inr "request42 1 []" server1 addr1]
  by (simp add: example_defs)

section \<open>The beacon scheduler\<close>

subsection \<open>The state after \<open>n\<close> ticks\<close>

text \<open>The counter \<open>i\<close> of the loop cannot reach \<open>startupCount\<close> before the 15th tick.\<close>

lemma of_nat_neq_startupCount: "n < 15 \<Longrightarrow> (of_nat n :: 64 word) \<noteq> startupCount"
proof
  assume n: "n < 15" and eq: "(of_nat n :: 64 word) = startupCount"
  from eq have "unat (of_nat n :: 64 word) = unat (15 :: 64 word)"
    by (simp add: startupCount_def)
  then have "n mod 2 ^ 64 = 15" by (simp add: unat_of_nat)
  with n show False by simp
qed

lemma ticks_state:
  "(tick sendAll ^^ n) (startSched b) =
     \<lparr>sch_beacon = seqBeacon b n, sch_i = of_nat n,
      sch_ticker = (if n < 15 then startupInterval else beaconInterval),
      sch_stopped = False,
      sch_sent = concat (map (\<lambda>k. sendAll (seqBeacon b k)) [1..<Suc n])\<rparr>"
proof (induction n)
  case 0
  show ?case by (simp add: startSched_def seqBeacon_def)
next
  case (Suc n)
  define T where "T = (\<lambda>n::nat. if n < 15 then startupInterval else beaconInterval)"
  have tk: "(if (of_nat n + 1 :: 64 word) = startupCount then beaconInterval else T n) = T (Suc n)"
  proof -
    consider "Suc n < 15" | "Suc n = 15" | "15 < Suc n" by linarith
    then show ?thesis
    proof cases
      case 1
      then show ?thesis using of_nat_neq_startupCount [of "Suc n"] by (simp add: T_def add.commute)
    next
      case 2
      then have "(of_nat n + 1 :: 64 word) = of_nat 15" by (metis of_nat_Suc add.commute)
      with 2 show ?thesis by (simp add: startupCount_def T_def)
    next
      case 3
      then show ?thesis by (simp add: T_def)
    qed
  qed
  have tk1: "(of_nat n + 1 :: 64 word) = startupCount \<Longrightarrow> beaconInterval = T (Suc n)"
    and tk2: "(of_nat n + 1 :: 64 word) \<noteq> startupCount \<Longrightarrow> T n = T (Suc n)"
    using tk by (simp_all split: if_splits)
  have step: "seqBeacon b n\<lparr>beacon_BeaconSequenceID := beacon_BeaconSequenceID (seqBeacon b n) + 1\<rparr>
      = seqBeacon b (Suc n)"
    by (simp add: seqBeacon_def add.assoc add.commute)
  have up: "[1..<Suc (Suc n)] = [1..<Suc n] @ [Suc n]" by simp
  have "(tick sendAll ^^ Suc n) (startSched b) = tick sendAll ((tick sendAll ^^ n) (startSched b))"
    by simp
  also have "\<dots> = tick sendAll
     \<lparr>sch_beacon = seqBeacon b n, sch_i = of_nat n, sch_ticker = T n,
      sch_stopped = False,
      sch_sent = concat (map (\<lambda>k. sendAll (seqBeacon b k)) [1..<Suc n])\<rparr>"
    by (simp only: Suc.IH T_def)
  also have "\<dots> =
     \<lparr>sch_beacon = seqBeacon b (Suc n), sch_i = of_nat (Suc n), sch_ticker = T (Suc n),
      sch_stopped = False,
      sch_sent = concat (map (\<lambda>k. sendAll (seqBeacon b k)) [1..<Suc (Suc n)])\<rparr>"
    unfolding tick_def Let_def up by (simp add: tk1 tk2 step)
  finally show ?case by (simp only: T_def)
qed

lemma beaconLoop_ticks:
  "beaconLoop sendAll cerr st es =
     (if ticksBefore es < length es
      then ((tick sendAll ^^ ticksBefore es) st\<lparr>sch_stopped := True\<rparr>, Some cerr)
      else ((tick sendAll ^^ ticksBefore es) st, None))"
proof (induction es arbitrary: st)
  case Nil
  show ?case by (simp add: ticksBefore_def)
next
  case (Cons e es)
  show ?case
  proof (cases e)
    case Done
    then show ?thesis by (simp add: ticksBefore_def)
  next
    case Tick
    then show ?thesis
      using Cons [of "tick sendAll st"] by (simp add: ticksBefore_def funpow_swap1)
  qed
qed

lemma beaconLoop_start:
  "fst (beaconLoop sendAll cerr (startSched b) es) =
     \<lparr>sch_beacon = seqBeacon b (ticksBefore es), sch_i = of_nat (ticksBefore es),
      sch_ticker = (if ticksBefore es < 15 then startupInterval else beaconInterval),
      sch_stopped = (ticksBefore es < length es),
      sch_sent = concat (map (\<lambda>k. sendAll (seqBeacon b k)) [1..<Suc (ticksBefore es)])\<rparr>"
  by (simp add: beaconLoop_ticks ticks_state)

lemma Serve_sched:
  assumes "env_rand_Read env = Inr g" and "env_Listen env = Inr ln"
  shows "sv_sched (Serve P decode env serverAddr) =
               Some (fst (beaconLoop (\<lambda>b. [SendApp (FLAG_FROM_SERVER P) 2 (APP_BEACON P) b])
                       (env_ctx_Err env)
                       (startSched (template g
                          (if length (ipBytes (tcp_IP serverAddr)) > 0
                           then copy (replicate 16 0) (To16 (ipBytes (tcp_IP serverAddr)))
                           else replicate 16 0) (tcp_Port serverAddr)))
                       (env_select env)))"
  using assms by (simp add: Serve_def Let_def zeroBeacon_def template_def split: prod.splits)

lemma Serve_part000_sched:
  assumes "env_rand_Read env = Inr g" and "beaconIPs env serverAddr = (cs1, Inr ips)"
    and "dialAll (env_DialUDP env) ips = (cs2, Inr senders)"
  shows "sv_sched (Serve_part000 P env serverAddr) =
               Some (fst (beaconLoop (\<lambda>b. map (\<lambda>s. send P s b) senders)
                       (env_ctx_Err env)
                       (startSched (template g (replicate 16 0) (tcp_Port serverAddr)))
                       (env_select env)))"
  using assms by (simp add: Serve_part000_def Let_def zeroBeacon_def template_def split: prod.splits)

lemma seq_template [simp]: "beacon_BeaconSequenceID (template g a p) = 0"
  and addr_template [simp]: "beacon_ServerAddress (template g a p) = a"
  by (simp_all add: template_def)

lemma seq_seqBeacon:
  "beacon_BeaconSequenceID b = 0 \<Longrightarrow> beacon_BeaconSequenceID (seqBeacon b k) = of_nat k"
  by (simp add: seqBeacon_def)

lemma map_concat_single: "concat (map (\<lambda>k. [f k]) ks) = map f ks"
  by (induction ks) simp_all

lemma concat_replicate_length: "length (concat (map (\<lambda>k. map (f k) xs) ks)) = length ks * length xs"
  by (induction ks) simp_all

lemma send_seqs:
  "beacon_BeaconSequenceID b = 0 \<Longrightarrow>
   map (\<lambda>out. beacon_BeaconSequenceID (out_packet out))
     (concat (map (\<lambda>k. map (\<lambda>s. send P s (seqBeacon b k)) senders) ks))
   = concat (map (\<lambda>k. replicate (length senders) (of_nat k)) ks)"
  by (induction ks) (simp_all add: send_def seq_seqBeacon o_def map_replicate_const)

lemma send_senders:
  "map out_sender (concat (map (\<lambda>k. map (\<lambda>s. send P s (f k)) senders) ks))
   = concat (replicate (length ks) senders)"
  by (induction ks) (simp_all add: send_def o_def)

lemma dialAll_fails:
  "\<forall>p \<in> set pre. dial (localAddr p) (remoteAddr p) = None \<Longrightarrow>
   dial (localAddr ip) (remoteAddr ip) = Some e \<Longrightarrow>
   dialAll dial (pre @ ip # post) =
     (map (\<lambda>p. CallDialUDP (localAddr p) (remoteAddr p)) (pre @ [ip]), Inl e)"
  by (induction pre) simp_all

lemma interfaceIPs_fails:
  "\<forall>p \<in> set pre. \<exists>addrs. if_Addrs p = Inr addrs \<Longrightarrow>
   if_Addrs i = Inl e \<Longrightarrow>
   interfaceIPs (pre @ i # post) = (map (\<lambda>p. CallAddrs (if_Name p)) (pre @ [i]), Inl e)"
  by (induction pre) auto

lemma copy_16: "length src = 16 \<Longrightarrow> copy (replicate 16 0) src = src"
  by (simp add: copy_def)

lemma length_To16: "length ip = 4 \<or> length ip = 16 \<Longrightarrow> length (To16 ip) = 16"
  by (auto simp: To16_def IPv4len_def IPv6len_def v4InV6Prefix_def)

subsection \<open>Sequence numbers\<close>

text \<open>
  C4. Once \<open>Serve\<close> is in its loop and has handled \<open>n\<close> ticks, the beacon's
  \<open>BeaconSequenceID\<close> is \<open>n\<close> (as a machine integer, so modulo its width), and the
  beacons sent carry the numbers 1, 2, ..., \<open>n\<close> in this order: in \<open>search.go\<close> one
  beacon per tick on the broadcast connection, in the older file one beacon per
  sender and tick, all senders of a tick with the same number. A tick adds exactly 1
  whatever the send step is; read as a number, the new value is the old one plus 1
  modulo \<open>2\<^sup>w\<close> for a counter of \<open>w\<close> bits.
\<close>

theorem beacon_sequence:
  assumes "env_rand_Read env = Inr g"
  shows "(\<forall>ln. env_Listen env = Inr ln \<longrightarrow>
            (\<exists>st. sv_sched (Serve P decode env serverAddr) = Some st
               \<and> beacon_BeaconSequenceID (sch_beacon st) = of_nat (ticksBefore (env_select env))
               \<and> map (\<lambda>m. beacon_BeaconSequenceID (sent_payload m)) (sch_sent st)
                   = map of_nat [1..<Suc (ticksBefore (env_select env))]))
       \<and> (\<forall>cs1 ips cs2 senders.
            beaconIPs env serverAddr = (cs1, Inr ips)
              \<and> dialAll (env_DialUDP env) ips = (cs2, Inr senders) \<longrightarrow>
            (\<exists>st. sv_sched (Serve_part000 P env serverAddr) = Some st
               \<and> beacon_BeaconSequenceID (sch_beacon st) = of_nat (ticksBefore (env_select env))
               \<and> map (\<lambda>out. beacon_BeaconSequenceID (out_packet out)) (sch_sent st)
                   = concat (map (\<lambda>k. replicate (length senders) (of_nat k))
                       [1..<Suc (ticksBefore (env_select env))])
               \<and> map out_sender (sch_sent st)
                   = concat (replicate (ticksBefore (env_select env)) senders)))
       \<and> (\<forall>sendAll (st :: (('w::len) word, 'o) sched).
            beacon_BeaconSequenceID (sch_beacon (tick sendAll st))
              = beacon_BeaconSequenceID (sch_beacon st) + 1
            \<and> unat (beacon_BeaconSequenceID (sch_beacon (tick sendAll st)))
              = (unat (beacon_BeaconSequenceID (sch_beacon st)) + 1) mod 2 ^ LENGTH('w))"
proof (intro conjI; intro allI impI)
  fix ln assume "env_Listen env = Inr ln"
  note s = Serve_sched [OF assms this, of P decode serverAddr]
  show "\<exists>st. sv_sched (Serve P decode env serverAddr) = Some st
               \<and> beacon_BeaconSequenceID (sch_beacon st) = of_nat (ticksBefore (env_select env))
               \<and> map (\<lambda>m. beacon_BeaconSequenceID (sent_payload m)) (sch_sent st)
                   = map of_nat [1..<Suc (ticksBefore (env_select env))]"
    unfolding s beaconLoop_start
    by (simp add: seq_seqBeacon map_concat_single SendApp_def o_def del: upt_Suc)
next
  fix cs1 ips cs2 senders
  assume "beaconIPs env serverAddr = (cs1, Inr ips)
              \<and> dialAll (env_DialUDP env) ips = (cs2, Inr senders)"
  then have 1: "beaconIPs env serverAddr = (cs1, Inr ips)"
    and 2: "dialAll (env_DialUDP env) ips = (cs2, Inr senders)" by simp_all
  note s = Serve_part000_sched [OF assms 1 2, of P]
  show "\<exists>st. sv_sched (Serve_part000 P env serverAddr) = Some st
               \<and> beacon_BeaconSequenceID (sch_beacon st) = of_nat (ticksBefore (env_select env))
               \<and> map (\<lambda>out. beacon_BeaconSequenceID (out_packet out)) (sch_sent st)
                   = concat (map (\<lambda>k. replicate (length senders) (of_nat k))
                       [1..<Suc (ticksBefore (env_select env))])
               \<and> map out_sender (sch_sent st)
                   = concat (replicate (ticksBefore (env_select env)) senders)"
    unfolding s beaconLoop_start
    by (simp add: seq_seqBeacon send_seqs send_senders del: upt_Suc)
next
  fix sendAll and st :: "('w word, 'o) sched"
  show "beacon_BeaconSequenceID (sch_beacon (tick sendAll st))
              = beacon_BeaconSequenceID (sch_beacon st) + 1
            \<and> unat (beacon_BeaconSequenceID (sch_beacon (tick sendAll st)))
              = (unat (beacon_BeaconSequenceID (sch_beacon st)) + 1) mod 2 ^ LENGTH('w)"
    by (simp add: tick_def Let_def unat_word_ariths)
qed

lemma ticksBefore_ticks: "ticksBefore (replicate n Tick @ [Done]) = n"
  by (induction n) (simp_all add: ticksBefore_def)

theorem beacon_sequence_witness:
  "(\<exists>st. sv_sched (Serve pvAccess Inr (env1 [Tick, Tick, Tick, Done]) wildcard) = Some st
       \<and> map (\<lambda>m. beacon_BeaconSequenceID (sent_payload m)) (sch_sent st) = [1, 2, 3 :: 8 word])
   \<and> (\<exists>st. sv_sched (Serve_part000 pvAccess (env1 [Tick, Tick, Done]) wildcard) = Some st
       \<and> map (\<lambda>out. beacon_BeaconSequenceID (out_packet out)) (sch_sent st) = [1, 2 :: 8 word])"
proof -
  have t3: "ticksBefore [Tick, Tick, Tick, Done] = 3" and t2: "ticksBefore [Tick, Tick, Done] = 2"
    by (simp_all add: ticksBefore_def)
  have ips: "beaconIPs (env1 [Tick, Tick, Done]) wildcard =
     ([CallInterfaces, CallAddrs ''eth0''],
      Inr [\<lparr>ipa_IP = v4InV6Prefix @ [192, 0, 2, 5], ipa_Zone = ''eth0''\<rparr>])"
    by (simp add: beaconIPs_def example_defs)
  obtain cs senders where d: "dialAll (env_DialUDP (env1 [Tick, Tick, Done]))
       [\<lparr>ipa_IP = v4InV6Prefix @ [192, 0, 2, 5], ipa_Zone = ''eth0''\<rparr>] = (cs, Inr senders)"
    and l: "length senders = 1"
    by (simp add: example_defs)
  have r: "env_rand_Read (env1 es) = Inr (replicate 12 7)" for es by (simp add: env1_def)
  note a = beacon_sequence [OF r, of "[Tick, Tick, Tick, Done]" pvAccess Inr wildcard, THEN conjunct1]
  note b = beacon_sequence [OF r, of "[Tick, Tick, Done]" pvAccess Inr wildcard,
      THEN conjunct2, THEN conjunct1, rule_format, OF conjI, OF ips d]
  have n3: "map of_nat [1..<Suc 3] = [1, 2, 3 :: 8 word]"
    and n2: "concat (map (\<lambda>k. replicate 1 (of_nat k)) [1..<Suc 2]) = [1, 2 :: 8 word]"
    by (simp_all add: upt_rec numeral_nat)
  have ln: "env_Listen (env1 es) = Inr listener1" for es by (simp add: env1_def)
  have sel: "env_select (env1 es) = es" for es by (simp add: env1_def)
  from a [rule_format, OF ln] obtain st1
    where s1: "sv_sched (Serve pvAccess Inr (env1 [Tick, Tick, Tick, Done]) wildcard) = Some st1"
      and m1: "map (\<lambda>m. beacon_BeaconSequenceID (sent_payload m)) (sch_sent st1)
             = (map of_nat [1..<Suc 3] :: 8 word list)"
    unfolding sel t3 by blast
  from b obtain st2
    where s2: "sv_sched (Serve_part000 pvAccess (env1 [Tick, Tick, Done]) wildcard) = Some st2"
      and m2: "map (\<lambda>out. beacon_BeaconSequenceID (out_packet out)) (sch_sent st2)
             = (concat (map (\<lambda>k. replicate 1 (of_nat k)) [1..<Suc 2]) :: 8 word list)"
    unfolding sel t2 l by blast
  show ?thesis
  proof (intro conjI)
    show "\<exists>st. sv_sched (Serve pvAccess Inr (env1 [Tick, Tick, Tick, Done]) wildcard) = Some st
       \<and> map (\<lambda>m. beacon_BeaconSequenceID (sent_payload m)) (sch_sent st) = [1, 2, 3 :: 8 word]"
      using s1 m1 unfolding n3 by (intro exI [of _ st1] conjI)
    show "\<exists>st. sv_sched (Serve_part000 pvAccess (env1 [Tick, Tick, Done]) wildcard) = Some st
       \<and> map (\<lambda>out. beacon_BeaconSequenceID (out_packet out)) (sch_sent st) = [1, 2 :: 8 word]"
      using s2 m2 unfolding n2 by (intro exI [of _ st2] conjI)
  qed
qed

subsection \<open>The timer\<close>

text \<open>
  C5. After \<open>n\<close> ticks the ticker in use has a period of 1 second (\<open>10\<^sup>9\<close> ns) if
  \<open>n < 15\<close> and of 5 seconds from the 15th tick on; every tick sends once (once per
  sender in the older file), so that no tick is lost or handled twice at the change of
  tickers.
\<close>

theorem timer_period:
  assumes "env_rand_Read env = Inr g"
  shows "(\<forall>ln. env_Listen env = Inr ln \<longrightarrow>
            (\<exists>st :: (('w::len) word, 'w word BeaconMessage sent) sched.
               sv_sched (Serve P decode env serverAddr) = Some st
               \<and> sch_ticker st =
                   (if ticksBefore (env_select env) < 15 then 1000000000 else 5000000000)
               \<and> length (sch_sent st) = ticksBefore (env_select env)))
       \<and> (\<forall>cs1 ips cs2 senders.
            beaconIPs env serverAddr = (cs1, Inr ips)
              \<and> dialAll (env_DialUDP env) ips = (cs2, Inr senders) \<longrightarrow>
            (\<exists>st :: (('v::len) word, 'v word beaconOut) sched.
               sv_sched (Serve_part000 P env serverAddr) = Some st
               \<and> sch_ticker st =
                   (if ticksBefore (env_select env) < 15 then 1000000000 else 5000000000)
               \<and> length (sch_sent st) = ticksBefore (env_select env) * length senders))"
proof (intro conjI allI impI)
  fix ln assume "env_Listen env = Inr ln"
  note s = Serve_sched [OF assms this, of P decode serverAddr]
  show "\<exists>st :: ('w word, 'w word BeaconMessage sent) sched.
               sv_sched (Serve P decode env serverAddr) = Some st
               \<and> sch_ticker st =
                   (if ticksBefore (env_select env) < 15 then 1000000000 else 5000000000)
               \<and> length (sch_sent st) = ticksBefore (env_select env)"
    unfolding s beaconLoop_start
    by (simp add: map_concat_single startupInterval_def beaconInterval_def time_Second_def
        del: upt_Suc)
next
  fix cs1 ips cs2 senders
  assume "beaconIPs env serverAddr = (cs1, Inr ips)
              \<and> dialAll (env_DialUDP env) ips = (cs2, Inr senders)"
  then have 1: "beaconIPs env serverAddr = (cs1, Inr ips)"
    and 2: "dialAll (env_DialUDP env) ips = (cs2, Inr senders)" by simp_all
  note s = Serve_part000_sched [OF assms 1 2, of P]
  show "\<exists>st :: ('v word, 'v word beaconOut) sched.
               sv_sched (Serve_part000 P env serverAddr) = Some st
               \<and> sch_ticker st =
                   (if ticksBefore (env_select env) < 15 then 1000000000 else 5000000000)
               \<and> length (sch_sent st) = ticksBefore (env_select env) * length senders"
    unfolding s beaconLoop_start
    by (simp add: concat_replicate_length startupInterval_def beaconInterval_def time_Second_def
        del: upt_Suc)
qed

theorem timer_period_witness:
  "(\<exists>st :: (8 word, 8 word BeaconMessage sent) sched.
      sv_sched (Serve pvAccess Inr (env1 (replicate 14 Tick @ [Done])) wildcard) = Some st
      \<and> sch_ticker st = 1000000000 \<and> length (sch_sent st) = 14)
   \<and> (\<exists>st :: (8 word, 8 word BeaconMessage sent) sched.
      sv_sched (Serve pvAccess Inr (env1 (replicate 15 Tick @ [Done])) wildcard) = Some st
      \<and> sch_ticker st = 5000000000 \<and> length (sch_sent st) = 15)
   \<and> (\<exists>st :: (8 word, 8 word beaconOut) sched.
      sv_sched (Serve_part000 pvAccess (env1 (replicate 15 Tick @ [Done])) wildcard) = Some st
      \<and> sch_ticker st = 5000000000 \<and> length (sch_sent st) = 15)"
proof -
  have r: "env_rand_Read (env1 es) = Inr (replicate 12 7)" for es by (simp add: env1_def)
  have ln: "env_Listen (env1 es) = Inr listener1" for es by (simp add: env1_def)
  have sel: "env_select (env1 es) = es" for es by (simp add: env1_def)
  have ips: "beaconIPs (env1 es) wildcard =
     ([CallInterfaces, CallAddrs ''eth0''],
      Inr [\<lparr>ipa_IP = v4InV6Prefix @ [192, 0, 2, 5], ipa_Zone = ''eth0''\<rparr>])" for es
    by (simp add: beaconIPs_def example_defs)
  obtain cs senders where d: "dialAll (env_DialUDP (env1 (replicate 15 Tick @ [Done])))
       [\<lparr>ipa_IP = v4InV6Prefix @ [192, 0, 2, 5], ipa_Zone = ''eth0''\<rparr>] = (cs, Inr senders)"
    and l: "length senders = 1"
    by (simp add: example_defs)
  note a = timer_period [OF r, of "replicate 14 Tick @ [Done]" pvAccess Inr wildcard,
      THEN conjunct1, rule_format, OF ln]
  note b = timer_period [OF r, of "replicate 15 Tick @ [Done]" pvAccess Inr wildcard,
      THEN conjunct1, rule_format, OF ln]
  note c = timer_period [OF r, of "replicate 15 Tick @ [Done]" pvAccess Inr wildcard,
      THEN conjunct2, rule_format, OF conjI, OF ips d]
  from a b c show ?thesis
    unfolding sel ticksBefore_ticks l by simp
qed

subsection \<open>The advertised address\<close>

text \<open>
  C6. The comment on \<open>Serve\<close> in \<open>search.go\<close> says that without a configured IP the
  beacons advertise the address of the interface they are transmitted on, and
  \<open>sender.send\<close> of the older file writes the sender's IP into every beacon at send
  time. \<open>Serve\<close> of \<open>search.go\<close> itself writes nothing: started with a nil IP on a
  machine whose interface is 192.0.2.5, it hands the broadcast connection a beacon
  whose server address field is all zero, where the older file sends the beacon from
  192.0.2.5 with 192.0.2.5 in the field.
\<close>

theorem wildcard_beacon_address:
  "map_option (\<lambda>st. map (\<lambda>m. beacon_ServerAddress (sent_payload m)) (sch_sent st))
     (sv_sched (Serve pvAccess Inr (env1 [Tick, Done]) wildcard
        :: (8 word, 8 word BeaconMessage sent, (handled list \<times> error option) option) served))
   = Some [replicate 16 0]
   \<and> map_option (\<lambda>st. map (\<lambda>out. (udp_IP (snd_local (out_sender out)),
                                    beacon_ServerAddress (out_packet out))) (sch_sent st))
     (sv_sched (Serve_part000 pvAccess (env1 [Tick, Done]) wildcard
        :: (8 word, 8 word beaconOut, unit) served))
   = Some [(v4InV6Prefix @ [192, 0, 2, 5], v4InV6Prefix @ [192, 0, 2, 5])]"
proof
  show "map_option (\<lambda>st. map (\<lambda>m. beacon_ServerAddress (sent_payload m)) (sch_sent st))
     (sv_sched (Serve pvAccess Inr (env1 [Tick, Done]) wildcard
        :: (8 word, 8 word BeaconMessage sent, (handled list \<times> error option) option) served))
   = Some [replicate 16 0]"
    by (simp add: Serve_def example_defs ipBytes_def Let_def tick_def startSched_def
        zeroBeacon_def SendApp_def)
  show "map_option (\<lambda>st. map (\<lambda>out. (udp_IP (snd_local (out_sender out)),
                                    beacon_ServerAddress (out_packet out))) (sch_sent st))
     (sv_sched (Serve_part000 pvAccess (env1 [Tick, Done]) wildcard
        :: (8 word, 8 word beaconOut, unit) served))
   = Some [(v4InV6Prefix @ [192, 0, 2, 5], v4InV6Prefix @ [192, 0, 2, 5])]"
    by (simp add: Serve_part000_def beaconIPs_def example_defs Let_def tick_def startSched_def
        zeroBeacon_def send_def localAddr_def copy_def v4InV6Prefix_def)
qed

section \<open>Responses and start-up\<close>

lemma Serve_search:
  assumes "env_rand_Read env = Inr g" and "env_Listen env = Inr ln"
  shows "sv_search (Serve P decode env serverAddr) =
           Some (serve P decode
                  \<lparr>srv_GUID = copy (replicate 12 0) g, srv_ServerPort = tcp_Port serverAddr\<rparr> ln)"
  using assms by (simp add: Serve_def Let_def zeroBeacon_def split: prod.splits)

lemma handleConnection_address:
  "m \<in> set (h_sent (handleConnection P decode s laddr conn)) \<Longrightarrow>
   resp_ServerAddress (sent_payload m) = copy (replicate 16 0) (To16 (udp_IP laddr))"
  by (auto simp: handleConnection_def h_sent_finish processSearch_def SendApp_def
      searchResponse_def split: sum.splits if_splits)

text \<open>
  C7. Once \<open>Serve\<close> has its listener, every search response sent by a handler of an
  accepted connection carries the listener's local address (\<open>ln.LocalAddr\<close>) in 16-byte
  form, and the responses are the same whatever IP the server was configured with.
\<close>

theorem response_address:
  assumes "env_rand_Read env = Inr g" and "env_Listen env = Inr ln"
    and "length (udp_IP (ln_LocalAddr ln)) = 4 \<or> length (udp_IP (ln_LocalAddr ln)) = 16"
  shows "\<exists>hs r. sv_search (Serve P decode env serverAddr
                   :: (('w::len) word, 'w word BeaconMessage sent, _) served) = Some (hs, r)
           \<and> (\<forall>h \<in> set hs. \<forall>m \<in> set (h_sent h).
                 resp_ServerAddress (sent_payload m) = To16 (udp_IP (ln_LocalAddr ln))
                 \<and> length (resp_ServerAddress (sent_payload m)) = 16)
           \<and> sv_search (Serve P decode env (serverAddr\<lparr>tcp_IP := ip\<rparr>)
                   :: ('w word, 'w word BeaconMessage sent, _) served) = Some (hs, r)"
proof -
  let ?s = "\<lparr>srv_GUID = copy (replicate 12 0) g, srv_ServerPort = tcp_Port serverAddr\<rparr>"
  have a: "copy (replicate 16 0) (To16 (udp_IP (ln_LocalAddr ln))) = To16 (udp_IP (ln_LocalAddr ln))"
    using length_To16 [OF assms(3)] by (simp add: copy_16)
  have "\<forall>h \<in> set (fst (serve P decode ?s ln)). \<forall>m \<in> set (h_sent h).
          resp_ServerAddress (sent_payload m) = To16 (udp_IP (ln_LocalAddr ln))
          \<and> length (resp_ServerAddress (sent_payload m)) = 16"
    using length_To16 [OF assms(3)]
    by (auto simp: serve_def a dest!: handleConnection_address)
  moreover have "sv_search (Serve P decode env serverAddr
                   :: ('w word, 'w word BeaconMessage sent, _) served)
      = Some (fst (serve P decode ?s ln), snd (serve P decode ?s ln))"
    by (simp add: Serve_search [OF assms(1,2)])
  moreover have "sv_search (Serve P decode env (serverAddr\<lparr>tcp_IP := ip\<rparr>)
                   :: ('w word, 'w word BeaconMessage sent, _) served)
      = Some (fst (serve P decode ?s ln), snd (serve P decode ?s ln))"
    by (simp add: Serve_search [OF assms(1,2)])
  ultimately show ?thesis by blast
qed

theorem response_address_witness:
  "\<exists>hs r h m.
      sv_search (Serve pvAccess Inr (env1 []) configured
        :: (8 word, 8 word BeaconMessage sent, _) served) = Some (hs, r)
      \<and> h \<in> set hs \<and> m \<in> set (h_sent h)
      \<and> resp_ServerAddress (sent_payload m) = v4InV6Prefix @ [192, 0, 2, 5]"
proof -
  have r: "env_rand_Read (env1 es) = Inr (replicate 12 7)" for es by (simp add: env1_def)
  have ln: "env_Listen (env1 es) = Inr listener1" for es by (simp add: env1_def)
  have len: "length (udp_IP (ln_LocalAddr listener1)) = 4 \<or> length (udp_IP (ln_LocalAddr listener1)) = 16"
    by (simp add: example_defs)
  from response_address [OF r [of "[]"] ln len, where P = pvAccess and decode = Inr
      and serverAddr = configured and ip = None]
  obtain hs r' where s: "sv_search (Serve pvAccess Inr (env1 []) configured
        :: (8 word, 8 word BeaconMessage sent, _) served) = Some (hs, r')"
    and a: "\<forall>h \<in> set hs. \<forall>m \<in> set (h_sent h).
                 resp_ServerAddress (sent_payload m) = To16 (udp_IP (ln_LocalAddr listener1))"
    by blast
  from s have hs: "hs = [handleConnection pvAccess Inr
        \<lparr>srv_GUID = replicate 12 7, srv_ServerPort = 5075\<rparr> addr1
        (datagram 3 (request42 0x81 [chanA, chanB]))]"
    by (simp add: Serve_def serve_def Let_def env1_def listener1_def configured_def zeroBeacon_def
        copy_def ipBytes_def split: prod.splits)
  define h where "h = hd hs"
  define m where "m = hd (h_sent h)"
  have mem: "h \<in> set hs" "m \<in> set (h_sent h)"
    unfolding m_def h_def hs
    by (simp_all add: handleConnection_def finish_def processSearch_def replyRequired_def
        example_defs)
  from a mem have "resp_ServerAddress (sent_payload m) = v4InV6Prefix @ [192, 0, 2, 5]"
    by (simp add: example_defs To16_def IPv4len_def)
  with s mem show ?thesis by blast
qed

text \<open>
  C8. A failure of \<open>rand.Read\<close>, of \<open>udpconn.Listen\<close>, of \<open>net.Interfaces\<close>, of an
  interface's \<open>Addrs\<close> or of \<open>net.DialUDP\<close> is the result of \<open>Serve\<close>: the failing call
  is the last call made and was made once, the beacon loop is never entered, so no
  beacon is sent, and in \<open>search.go\<close> no search server is started.
\<close>

theorem startup_failure:
  "(env_rand_Read env = Inl e \<longrightarrow>
      (Serve P decode env serverAddr
         :: (('w::len) word, 'w word BeaconMessage sent, (handled list \<times> error option) option) served)
        = \<lparr>sv_err = Some e, sv_calls = [CallRandRead], sv_sched = None, sv_search = None\<rparr>
      \<and> (Serve_part000 P env serverAddr :: (('v::len) word, 'v word beaconOut, unit) served)
        = \<lparr>sv_err = Some e, sv_calls = [CallRandRead], sv_sched = None, sv_search = ()\<rparr>)
   \<and> ((\<exists>g. env_rand_Read env = Inr g) \<and> env_Listen env = Inl e \<longrightarrow>
      (Serve P decode env serverAddr
         :: ('w word, 'w word BeaconMessage sent, (handled list \<times> error option) option) served)
        = \<lparr>sv_err = Some e, sv_calls = [CallRandRead, CallListen], sv_sched = None,
           sv_search = None\<rparr>)
   \<and> ((\<exists>g. env_rand_Read env = Inr g)
        \<and> (tcp_IP serverAddr = None \<or> IsUnspecified (ipBytes (tcp_IP serverAddr)))
        \<and> env_Interfaces env = Inl e \<longrightarrow>
      (Serve_part000 P env serverAddr :: ('v word, 'v word beaconOut, unit) served)
        = \<lparr>sv_err = Some e, sv_calls = [CallRandRead, CallInterfaces], sv_sched = None,
           sv_search = ()\<rparr>)
   \<and> ((\<exists>g. env_rand_Read env = Inr g)
        \<and> (tcp_IP serverAddr = None \<or> IsUnspecified (ipBytes (tcp_IP serverAddr)))
        \<and> env_Interfaces env = Inr (pre @ i # post)
        \<and> (\<forall>p \<in> set pre. \<exists>addrs. if_Addrs p = Inr addrs) \<and> if_Addrs i = Inl e \<longrightarrow>
      (Serve_part000 P env serverAddr :: ('v word, 'v word beaconOut, unit) served)
        = \<lparr>sv_err = Some e,
           sv_calls = CallRandRead # CallInterfaces # map (\<lambda>p. CallAddrs (if_Name p)) (pre @ [i]),
           sv_sched = None, sv_search = ()\<rparr>)
   \<and> ((\<exists>g. env_rand_Read env = Inr g)
        \<and> beaconIPs env serverAddr = (cs, Inr (ips @ ip # rest))
        \<and> (\<forall>p \<in> set ips. env_DialUDP env (localAddr p) (remoteAddr p) = None)
        \<and> env_DialUDP env (localAddr ip) (remoteAddr ip) = Some e \<longrightarrow>
      (Serve_part000 P env serverAddr :: ('v word, 'v word beaconOut, unit) served)
        = \<lparr>sv_err = Some e,
           sv_calls = CallRandRead # cs
             @ map (\<lambda>p. CallDialUDP (localAddr p) (remoteAddr p)) (ips @ [ip]),
           sv_sched = None, sv_search = ()\<rparr>)"
proof (intro conjI impI)
  assume "env_rand_Read env = Inl e"
  then show "(Serve P decode env serverAddr
         :: ('w word, 'w word BeaconMessage sent, (handled list \<times> error option) option) served)
        = \<lparr>sv_err = Some e, sv_calls = [CallRandRead], sv_sched = None, sv_search = None\<rparr>"
    by (simp add: Serve_def failed_def)
next
  assume "env_rand_Read env = Inl e"
  then show "(Serve_part000 P env serverAddr :: ('v word, 'v word beaconOut, unit) served)
        = \<lparr>sv_err = Some e, sv_calls = [CallRandRead], sv_sched = None, sv_search = ()\<rparr>"
    by (simp add: Serve_part000_def failed_def)
next
  assume "(\<exists>g. env_rand_Read env = Inr g) \<and> env_Listen env = Inl e"
  then show "(Serve P decode env serverAddr
         :: ('w word, 'w word BeaconMessage sent, (handled list \<times> error option) option) served)
        = \<lparr>sv_err = Some e, sv_calls = [CallRandRead, CallListen], sv_sched = None,
           sv_search = None\<rparr>"
    by (auto simp: Serve_def failed_def Let_def)
next
  assume "(\<exists>g. env_rand_Read env = Inr g)
        \<and> (tcp_IP serverAddr = None \<or> IsUnspecified (ipBytes (tcp_IP serverAddr)))
        \<and> env_Interfaces env = Inl e"
  then have "(\<exists>g. env_rand_Read env = Inr g)" and "beaconIPs env serverAddr = ([CallInterfaces], Inl e)"
    by (auto simp: beaconIPs_def)
  then show "(Serve_part000 P env serverAddr :: ('v word, 'v word beaconOut, unit) served)
        = \<lparr>sv_err = Some e, sv_calls = [CallRandRead, CallInterfaces], sv_sched = None,
           sv_search = ()\<rparr>"
    by (auto simp: Serve_part000_def failed_def Let_def)
next
  assume a: "(\<exists>g. env_rand_Read env = Inr g)
        \<and> (tcp_IP serverAddr = None \<or> IsUnspecified (ipBytes (tcp_IP serverAddr)))
        \<and> env_Interfaces env = Inr (pre @ i # post)
        \<and> (\<forall>p \<in> set pre. \<exists>addrs. if_Addrs p = Inr addrs) \<and> if_Addrs i = Inl e"
  then have "interfaceIPs (pre @ i # post) = (map (\<lambda>p. CallAddrs (if_Name p)) (pre @ [i]), Inl e)"
    by (intro interfaceIPs_fails) simp_all
  with a have "(\<exists>g. env_rand_Read env = Inr g)"
    and "beaconIPs env serverAddr
          = (CallInterfaces # map (\<lambda>p. CallAddrs (if_Name p)) (pre @ [i]), Inl e)"
    by (auto simp: beaconIPs_def)
  then show "(Serve_part000 P env serverAddr :: ('v word, 'v word beaconOut, unit) served)
        = \<lparr>sv_err = Some e,
           sv_calls = CallRandRead # CallInterfaces # map (\<lambda>p. CallAddrs (if_Name p)) (pre @ [i]),
           sv_sched = None, sv_search = ()\<rparr>"
    by (auto simp: Serve_part000_def failed_def Let_def)
next
  assume a: "(\<exists>g. env_rand_Read env = Inr g)
        \<and> beaconIPs env serverAddr = (cs, Inr (ips @ ip # rest))
        \<and> (\<forall>p \<in> set ips. env_DialUDP env (localAddr p) (remoteAddr p) = None)
        \<and> env_DialUDP env (localAddr ip) (remoteAddr ip) = Some e"
  then have "dialAll (env_DialUDP env) (ips @ ip # rest)
      = (map (\<lambda>p. CallDialUDP (localAddr p) (remoteAddr p)) (ips @ [ip]), Inl e)"
    by (intro dialAll_fails) simp_all
  with a show "(Serve_part000 P env serverAddr :: ('v word, 'v word beaconOut, unit) served)
        = \<lparr>sv_err = Some e,
           sv_calls = CallRandRead # cs
             @ map (\<lambda>p. CallDialUDP (localAddr p) (remoteAddr p)) (ips @ [ip]),
           sv_sched = None, sv_search = ()\<rparr>"
    by (auto simp: Serve_part000_def failed_def Let_def)
qed

theorem startup_failure_witness:
  "(Serve pvAccess Inr ((env1 [Tick, Done])\<lparr>env_rand_Read := Inl (Failure ''entropy'')\<rparr>) wildcard
      :: (8 word, 8 word BeaconMessage sent, (handled list \<times> error option) option) served)
     = \<lparr>sv_err = Some (Failure ''entropy''), sv_calls = [CallRandRead], sv_sched = None,
        sv_search = None\<rparr>
   \<and> (Serve_part000 pvAccess ((env1 [Tick, Done])\<lparr>env_rand_Read := Inl (Failure ''entropy'')\<rparr>)
        wildcard :: (8 word, 8 word beaconOut, unit) served)
     = \<lparr>sv_err = Some (Failure ''entropy''), sv_calls = [CallRandRead], sv_sched = None,
        sv_search = ()\<rparr>
   \<and> (Serve pvAccess Inr ((env1 [Tick, Done])\<lparr>env_Listen := Inl (Failure ''bind'')\<rparr>) wildcard
      :: (8 word, 8 word BeaconMessage sent, (handled list \<times> error option) option) served)
     = \<lparr>sv_err = Some (Failure ''bind''), sv_calls = [CallRandRead, CallListen],
        sv_sched = None, sv_search = None\<rparr>
   \<and> (Serve_part000 pvAccess ((env1 [Tick, Done])\<lparr>env_Interfaces := Inl (Failure ''netlink'')\<rparr>)
        wildcard :: (8 word, 8 word beaconOut, unit) served)
     = \<lparr>sv_err = Some (Failure ''netlink''), sv_calls = [CallRandRead, CallInterfaces],
        sv_sched = None, sv_search = ()\<rparr>
   \<and> (Serve_part000 pvAccess
        ((env1 [Tick, Done])\<lparr>env_Interfaces :=
           Inr [eth0, \<lparr>if_Name = ''eth1'', if_Addrs = Inl (Failure ''addrs'')\<rparr>]\<rparr>)
        wildcard :: (8 word, 8 word beaconOut, unit) served)
     = \<lparr>sv_err = Some (Failure ''addrs''),
        sv_calls = [CallRandRead, CallInterfaces, CallAddrs ''eth0'', CallAddrs ''eth1''],
        sv_sched = None, sv_search = ()\<rparr>
   \<and> (Serve_part000 pvAccess
        ((env1 [Tick, Done])\<lparr>env_DialUDP := (\<lambda>laddr raddr. Some (Failure ''dial''))\<rparr>)
        configured :: (8 word, 8 word beaconOut, unit) served)
     = \<lparr>sv_err = Some (Failure ''dial''),
        sv_calls = [CallRandRead,
          CallDialUDP \<lparr>udp_IP = [192, 0, 2, 7], udp_Port = 0, udp_Zone = []\<rparr>
            \<lparr>udp_IP = IPv4bcast, udp_Port = 5076, udp_Zone = []\<rparr>],
        sv_sched = None, sv_search = ()\<rparr>"
proof -
  let ?e = "env1 [Tick, Done]"
  let ?ip = "\<lparr>ipa_IP = [192, 0, 2, 7], ipa_Zone = []\<rparr>"
  have unspec: "\<not> IsUnspecified [192, 0, 2, 7]"
    by code_simp
  have ips: "beaconIPs (?e\<lparr>env_DialUDP := (\<lambda>laddr raddr. Some (Failure ''dial''))\<rparr>) configured
      = ([], Inr ([] @ ?ip # []))"
    using unspec by (simp add: beaconIPs_def configured_def ipBytes_def)
  note a = startup_failure [where 'w = 8 and 'v = 8 and env = "?e\<lparr>env_rand_Read := Inl (Failure ''entropy'')\<rparr>"
      and e = "Failure ''entropy''" and P = pvAccess and decode = Inr and serverAddr = wildcard,
      THEN conjunct1, rule_format]
  note b = startup_failure [where 'w = 8 and 'v = 8 and env = "?e\<lparr>env_Listen := Inl (Failure ''bind'')\<rparr>"
      and e = "Failure ''bind''" and P = pvAccess and decode = Inr and serverAddr = wildcard,
      THEN conjunct2, THEN conjunct1, rule_format]
  note c = startup_failure [where 'w = 8 and 'v = 8 and env = "?e\<lparr>env_Interfaces := Inl (Failure ''netlink'')\<rparr>"
      and e = "Failure ''netlink''" and P = pvAccess and serverAddr = wildcard,
      THEN conjunct2, THEN conjunct2, THEN conjunct1, rule_format]
  note d = startup_failure [where 'w = 8 and 'v = 8 and env = "?e\<lparr>env_Interfaces :=
           Inr [eth0, \<lparr>if_Name = ''eth1'', if_Addrs = Inl (Failure ''addrs'')\<rparr>]\<rparr>"
      and e = "Failure ''addrs''" and P = pvAccess and serverAddr = wildcard
      and pre = "[eth0]" and i = "\<lparr>if_Name = ''eth1'', if_Addrs = Inl (Failure ''addrs'')\<rparr>"
      and post = "[]",
      THEN conjunct2, THEN conjunct2, THEN conjunct2, THEN conjunct1, rule_format]
  note f = startup_failure [where 'w = 8 and 'v = 8 and env = "?e\<lparr>env_DialUDP := (\<lambda>laddr raddr. Some (Failure ''dial''))\<rparr>"
      and e = "Failure ''dial''" and P = pvAccess and serverAddr = configured
      and cs = "[]" and ips = "[]" and ip = ?ip and rest = "[]",
      THEN conjunct2, THEN conjunct2, THEN conjunct2, THEN conjunct2, rule_format]
  have ra: "(remoteAddr ?ip) = \<lparr>udp_IP = IPv4bcast, udp_Port = 5076, udp_Zone = []\<rparr>"
    by (simp add: remoteAddr_def To4_def IPv4len_def udpPort_def)
  show ?thesis
  proof (intro conjI)
    show "(Serve pvAccess Inr (?e\<lparr>env_rand_Read := Inl (Failure ''entropy'')\<rparr>) wildcard
      :: (8 word, 8 word BeaconMessage sent, (handled list \<times> error option) option) served)
     = \<lparr>sv_err = Some (Failure ''entropy''), sv_calls = [CallRandRead], sv_sched = None,
        sv_search = None\<rparr>"
      using a by simp
    show "(Serve_part000 pvAccess (?e\<lparr>env_rand_Read := Inl (Failure ''entropy'')\<rparr>)
        wildcard :: (8 word, 8 word beaconOut, unit) served)
     = \<lparr>sv_err = Some (Failure ''entropy''), sv_calls = [CallRandRead], sv_sched = None,
        sv_search = ()\<rparr>"
      using a by simp
    show "(Serve pvAccess Inr (?e\<lparr>env_Listen := Inl (Failure ''bind'')\<rparr>) wildcard
      :: (8 word, 8 word BeaconMessage sent, (handled list \<times> error option) option) served)
     = \<lparr>sv_err = Some (Failure ''bind''), sv_calls = [CallRandRead, CallListen],
        sv_sched = None, sv_search = None\<rparr>"
      using b by (simp add: env1_def)
    show "(Serve_part000 pvAccess (?e\<lparr>env_Interfaces := Inl (Failure ''netlink'')\<rparr>)
        wildcard :: (8 word, 8 word beaconOut, unit) served)
     = \<lparr>sv_err = Some (Failure ''netlink''), sv_calls = [CallRandRead, CallInterfaces],
        sv_sched = None, sv_search = ()\<rparr>"
      using c by (simp add: env1_def wildcard_def)
    show "(Serve_part000 pvAccess
        (?e\<lparr>env_Interfaces :=
           Inr [eth0, \<lparr>if_Name = ''eth1'', if_Addrs = Inl (Failure ''addrs'')\<rparr>]\<rparr>)
        wildcard :: (8 word, 8 word beaconOut, unit) served)
     = \<lparr>sv_err = Some (Failure ''addrs''),
        sv_calls = [CallRandRead, CallInterfaces, CallAddrs ''eth0'', CallAddrs ''eth1''],
        sv_sched = None, sv_search = ()\<rparr>"
      using d by (simp add: env1_def wildcard_def eth0_def)
    show "(Serve_part000 pvAccess
        (?e\<lparr>env_DialUDP := (\<lambda>laddr raddr. Some (Failure ''dial''))\<rparr>)
        configured :: (8 word, 8 word beaconOut, unit) served)
     = \<lparr>sv_err = Some (Failure ''dial''),
        sv_calls = [CallRandRead,
          CallDialUDP \<lparr>udp_IP = [192, 0, 2, 7], udp_Port = 0, udp_Zone = []\<rparr>
            \<lparr>udp_IP = IPv4bcast, udp_Port = 5076, udp_Zone = []\<rparr>],
        sv_sched = None, sv_search = ()\<rparr>"
      using f ips by (simp add: env1_def ra localAddr_def)
  qed
qed

end
